theory Spec2Isabelle
  imports
    Main
    "HOL-Library.AList"
    "HOL-Library.Char_ord"
    "HOL-Library.List_Lexorder"
    "HOL-Library.Product_Lexorder"
begin

section \<open>Python values and strings\<close>

text \<open>
  The scripts exchange JSON documents.  A value is one of the shapes \<open>json.loads\<close>
  produces (floats are left out); a Python \<open>dict\<close> is an association list in
  insertion order.  A string is a list of characters with code points below 256.
\<close>

datatype json =
    JNull
  | JBool bool
  | JInt int
  | JStr string
  | JArr "json list"
  | JObj "(string \<times> json) list"

type_synonym dict = "(string \<times> json) list"

text \<open>\<open>d.get(k)\<close>, \<open>d[k] = v\<close> and \<open>d.pop(k, None)\<close>.\<close>

definition dict_get :: "dict \<Rightarrow> string \<Rightarrow> json option" where
  "dict_get d k = map_of d k"

definition dict_set :: "dict \<Rightarrow> string \<Rightarrow> json \<Rightarrow> dict" where
  "dict_set d k v = AList.update k v d"

definition dict_pop :: "dict \<Rightarrow> string \<Rightarrow> dict" where
  "dict_pop d k = AList.delete k d"

text \<open>\<open>str.isspace\<close> on code points below 256, and \<open>str.strip\<close>.\<close>

definition is_space :: "char \<Rightarrow> bool" where
  "is_space c = ((of_char c :: nat) \<in> {9, 10, 11, 12, 13, 28, 29, 30, 31, 32, 133, 160})"

definition lstrip :: "string \<Rightarrow> string" where
  "lstrip s = dropWhile is_space s"

definition rstrip :: "string \<Rightarrow> string" where
  "rstrip s = rev (dropWhile is_space (rev s))"

definition strip :: "string \<Rightarrow> string" where
  "strip s = lstrip (rstrip s)"

text \<open>\<open>sep.join(parts)\<close>.\<close>

fun join :: "string \<Rightarrow> string list \<Rightarrow> string" where
  "join sep [] = []"
| "join sep [x] = x"
| "join sep (x # y # ys) = x @ sep @ join sep (y # ys)"

text \<open>\<open>str(n)\<close> for an integer.\<close>

definition digit_char :: "nat \<Rightarrow> char" where
  "digit_char n = ''0123456789abcdef'' ! (n mod 16)"

fun str_nat :: "nat \<Rightarrow> string" where
  "str_nat n = (if n < 10 then [digit_char n] else str_nat (n div 10) @ [digit_char (n mod 10)])"

declare str_nat.simps [simp del]

definition str_int :: "int \<Rightarrow> string" where
  "str_int i = (if i < 0 then CHR ''-'' # str_nat (nat (- i)) else str_nat (nat i))"

text \<open>\<open>repr(s)\<close> for a string, as it appears inside the \<open>str\<close> of a list or dict.\<close>

definition hex2 :: "nat \<Rightarrow> string" where
  "hex2 n = [digit_char (n div 16), digit_char (n mod 16)]"

definition repr_char :: "char \<Rightarrow> char \<Rightarrow> string" where
  "repr_char q c =
     (if c = CHR 0x5C then [CHR 0x5C, CHR 0x5C]
      else if c = q then [CHR 0x5C, q]
      else if c = CHR 0x09 then [CHR 0x5C, CHR ''t'']
      else if c = CHR 0x0A then [CHR 0x5C, CHR ''n'']
      else if c = CHR 0x0D then [CHR 0x5C, CHR ''r'']
      else if (of_char c :: nat) < 32 \<or> (127 \<le> (of_char c :: nat) \<and> (of_char c :: nat) \<le> 160)
              \<or> (of_char c :: nat) = 173
        then [CHR 0x5C, CHR ''x''] @ hex2 (of_char c)
      else [c])"

definition repr_str :: "string \<Rightarrow> string" where
  "repr_str s =
     (let q = (if CHR 0x27 \<in> set s \<and> CHR 0x22 \<notin> set s then CHR 0x22 else CHR 0x27)
      in [q] @ concat (map (repr_char q) s) @ [q])"

text \<open>\<open>repr(v)\<close> and \<open>str(v)\<close> of a value; they differ on strings only.\<close>

fun py_repr :: "json \<Rightarrow> string"
  and py_repr_list :: "json list \<Rightarrow> string list"
  and py_repr_items :: "(string \<times> json) list \<Rightarrow> string list"
where
  "py_repr JNull = ''None''"
| "py_repr (JBool b) = (if b then ''True'' else ''False'')"
| "py_repr (JInt n) = str_int n"
| "py_repr (JStr s) = repr_str s"
| "py_repr (JArr xs) = ''['' @ join '', '' (py_repr_list xs) @ '']''"
| "py_repr (JObj kvs) = ''{'' @ join '', '' (py_repr_items kvs) @ ''}''"
| "py_repr_list [] = []"
| "py_repr_list (x # xs) = py_repr x # py_repr_list xs"
| "py_repr_items [] = []"
| "py_repr_items ((k, v) # kvs) = (repr_str k @ '': '' @ py_repr v) # py_repr_items kvs"

definition py_str :: "json \<Rightarrow> string" where
  "py_str v = (case v of JStr s \<Rightarrow> s | _ \<Rightarrow> py_repr v)"

text \<open>Truthiness, as tested by \<open>if v\<close> and \<open>v or default\<close>.\<close>

fun truthy :: "json \<Rightarrow> bool" where
  "truthy JNull = False"
| "truthy (JBool b) = b"
| "truthy (JInt n) = (n \<noteq> 0)"
| "truthy (JStr s) = (s \<noteq> [])"
| "truthy (JArr xs) = (xs \<noteq> [])"
| "truthy (JObj kvs) = (kvs \<noteq> [])"

text \<open>\<open>str(d.get(k) or "")\<close>, the way every reader of an event takes a text field.\<close>

definition get_str :: "dict \<Rightarrow> string \<Rightarrow> string" where
  "get_str d k =
     (case dict_get d k of
        None \<Rightarrow> []
      | Some v \<Rightarrow> if truthy v then py_str v else [])"

text \<open>
  Python's \<open>==\<close> on these values: \<open>True == 1\<close> and \<open>False == 0\<close>, lists compare
  element by element, dicts compare as mappings whatever the order of their keys.
\<close>

fun py_eq :: "json \<Rightarrow> json \<Rightarrow> bool"
  and py_eq_list :: "json list \<Rightarrow> json list \<Rightarrow> bool"
  and py_eq_items :: "(string \<times> json) list \<Rightarrow> (string \<times> json) list \<Rightarrow> bool"
where
  "py_eq JNull w = (w = JNull)"
| "py_eq (JBool a) w =
     (case w of JBool b \<Rightarrow> a = b | JInt n \<Rightarrow> (if a then 1 else 0) = n | _ \<Rightarrow> False)"
| "py_eq (JInt m) w =
     (case w of JBool b \<Rightarrow> m = (if b then 1 else 0) | JInt n \<Rightarrow> m = n | _ \<Rightarrow> False)"
| "py_eq (JStr s) w = (w = JStr s)"
| "py_eq (JArr xs) w = (case w of JArr ys \<Rightarrow> py_eq_list xs ys | _ \<Rightarrow> False)"
| "py_eq (JObj a) w =
     (case w of JObj b \<Rightarrow> length a = length b \<and> py_eq_items a b | _ \<Rightarrow> False)"
| "py_eq_list [] ys = (ys = [])"
| "py_eq_list (x # xs) ys =
     (case ys of [] \<Rightarrow> False | y # ys' \<Rightarrow> py_eq x y \<and> py_eq_list xs ys')"
| "py_eq_items [] b = True"
| "py_eq_items ((k, v) # a) b =
     (case map_of b k of None \<Rightarrow> False | Some w \<Rightarrow> py_eq v w \<and> py_eq_items a b)"

text \<open>
  A Python \<open>dict\<close> never holds a key twice.  \<open>wf_json\<close> says so for a value and
  for every dict inside it.
\<close>

fun wf_json :: "json \<Rightarrow> bool"
  and wf_list :: "json list \<Rightarrow> bool"
  and wf_items :: "(string \<times> json) list \<Rightarrow> bool"
where
  "wf_json (JArr xs) = wf_list xs"
| "wf_json (JObj kvs) = (distinct (map fst kvs) \<and> wf_items kvs)"
| "wf_json JNull = True"
| "wf_json (JBool b) = True"
| "wf_json (JInt n) = True"
| "wf_json (JStr s) = True"
| "wf_list [] = True"
| "wf_list (x # xs) = (wf_json x \<and> wf_list xs)"
| "wf_items [] = True"
| "wf_items ((k, v) # kvs) = (wf_json v \<and> wf_items kvs)"

definition wf_dict :: "dict \<Rightarrow> bool" where
  "wf_dict d = wf_json (JObj d)"

section \<open>Canonical serialisation and the event digest (memory_store.py)\<close>

text \<open>
  \<open>json.dumps\<close> escapes a string (with \<open>ensure_ascii=False\<close>): the quote, the
  backslash and the control characters.
\<close>

definition json_escape_char :: "char \<Rightarrow> string" where
  "json_escape_char c =
     (if c = CHR 0x22 then [CHR 0x5C, CHR 0x22]
      else if c = CHR 0x5C then [CHR 0x5C, CHR 0x5C]
      else if c = CHR 0x0A then [CHR 0x5C, CHR ''n'']
      else if c = CHR 0x0D then [CHR 0x5C, CHR ''r'']
      else if c = CHR 0x09 then [CHR 0x5C, CHR ''t'']
      else if c = CHR 0x08 then [CHR 0x5C, CHR ''b'']
      else if c = CHR 0x0C then [CHR 0x5C, CHR ''f'']
      else if (of_char c :: nat) < 32 then [CHR 0x5C, CHR ''u'', CHR ''0'', CHR ''0''] @ hex2 (of_char c)
      else [c])"

definition json_quote :: "string \<Rightarrow> string" where
  "json_quote s = [CHR 0x22] @ concat (map json_escape_char s) @ [CHR 0x22]"

text \<open>
  \<open>stable_json\<close>: \<open>json.dumps(obj, ensure_ascii=False, separators=(",", ":"),
  sort_keys=True)\<close>.  Keys are sorted at every level.
\<close>

fun dumps :: "json \<Rightarrow> string"
  and dumps_list :: "json list \<Rightarrow> string list"
  and dumps_items :: "(string \<times> json) list \<Rightarrow> (string \<times> string) list"
where
  "dumps JNull = ''null''"
| "dumps (JBool b) = (if b then ''true'' else ''false'')"
| "dumps (JInt n) = str_int n"
| "dumps (JStr s) = json_quote s"
| "dumps (JArr xs) = ''['' @ join '','' (dumps_list xs) @ '']''"
| "dumps (JObj kvs) = ''{'' @ join '','' (map snd (sort_key fst (dumps_items kvs))) @ ''}''"
| "dumps_list [] = []"
| "dumps_list (x # xs) = dumps x # dumps_list xs"
| "dumps_items [] = []"
| "dumps_items ((k, v) # kvs) = (k, json_quote k @ '':'' @ dumps v) # dumps_items kvs"

definition stable_json :: "dict \<Rightarrow> string" where
  "stable_json obj = dumps (JObj obj)"

text \<open>
  \<open>hash_event\<close>.  SHA-256 belongs to the Python library, not to the repository: the
  digest \<open>sha256\<close> (text to hexadecimal digest) is a parameter of everything that hashes.
\<close>

definition hash_event :: "(string \<Rightarrow> string) \<Rightarrow> dict \<Rightarrow> string" where
  "hash_event sha256 payload_without_hash = sha256 (stable_json payload_without_hash)"

fun unique_loop :: "string list \<Rightarrow> string list \<Rightarrow> string list" where
  "unique_loop seen [] = []"
| "unique_loop seen (item # items) =
     (if item \<in> set seen then unique_loop seen items
      else item # unique_loop (item # seen) items)"

definition unique_keep_order :: "string list \<Rightarrow> string list" where
  "unique_keep_order items = unique_loop [] items"

definition approx_tokens :: "string \<Rightarrow> int" where
  "approx_tokens text = max 1 ((int (length text) + 3) div 4)"

section \<open>The ledger (memory_store.py)\<close>

text \<open>
  The ledger file is the list of its non-blank lines, each as \<open>json.loads\<close> reads it:
  \<open>None\<close> is a line that is not valid JSON.  An absent file and an empty one are both
  the empty list.  A line written by \<open>append_jsonl\<close> reads back as the value written.
\<close>

type_synonym ledger = "json option list"

definition read_last_jsonl_obj :: "ledger \<Rightarrow> dict option" where
  "read_last_jsonl_obj lines =
     (if lines = [] then None
      else case last lines of Some (JObj loaded) \<Rightarrow> Some loaded | _ \<Rightarrow> None)"

definition count_nonempty_lines :: "ledger \<Rightarrow> int" where
  "count_nonempty_lines lines = int (length lines)"

definition append_jsonl :: "ledger \<Rightarrow> dict \<Rightarrow> ledger" where
  "append_jsonl lines obj = lines @ [Some (JObj obj)]"

text \<open>
  What \<open>append_event\<close> takes from outside: the keyword arguments of the call, and the
  values it draws from the clock (read twice) and from \<open>uuid4\<close>.
\<close>

record append_args =
  arg_kind :: string
  arg_status :: string
  arg_summary :: string
  arg_source :: string
  arg_task :: "string option"
  arg_paths :: "string list"
  arg_symbols :: "string list"
  arg_commands :: "string list"
  arg_refs :: "string list"
  arg_payload :: dict

record draw =
  now_for_id :: string
  uuid4_hex :: string
  now_for_timestamp :: string

definition replace :: "char \<Rightarrow> string \<Rightarrow> string \<Rightarrow> string" where
  "replace old new s = concat (map (\<lambda>c. if c = old then new else [c]) s)"

definition compact_stamp :: "string \<Rightarrow> string" where
  "compact_stamp stamp =
     replace CHR ''Z'' [] (replace CHR ''T'' ''-'' (replace CHR ''-'' [] (replace CHR '':'' [] stamp)))"

definition stripped_items :: "string list \<Rightarrow> string list" where
  "stripped_items xs = unique_keep_order (map strip (filter (\<lambda>p. p \<noteq> [] \<and> strip p \<noteq> []) xs))"

definition nonempty_value :: "json \<Rightarrow> bool" where
  "nonempty_value v = (v \<noteq> JNull \<and> v \<noteq> JArr [] \<and> v \<noteq> JObj [] \<and> v \<noteq> JStr [])"

definition last_hash :: "dict option \<Rightarrow> string" where
  "last_hash last_event =
     (case last_event of
        None \<Rightarrow> []
      | Some d \<Rightarrow>
          (case dict_get d ''hash'' of
             None \<Rightarrow> []
           | Some h \<Rightarrow> if truthy h then py_str h else []))"

definition next_seq :: "ledger \<Rightarrow> dict option \<Rightarrow> int" where
  "next_seq lines last_event =
     (case last_event of
        None \<Rightarrow> count_nonempty_lines lines + 1
      | Some d \<Rightarrow>
          (case dict_get d ''seq'' of
             Some (JInt n) \<Rightarrow> n + 1
           | Some (JBool b) \<Rightarrow> (if b then 1 else 0) + 1
           | _ \<Rightarrow> count_nonempty_lines lines + 1))"

text \<open>The dict literal of \<open>append_event\<close>, before empty fields are dropped.\<close>

definition event_draft ::
  "draw \<Rightarrow> ledger \<Rightarrow> string \<Rightarrow> string \<Rightarrow> append_args \<Rightarrow> dict" where
  "event_draft dr lines repo_root repo_id_value a =
     (let last_event = read_last_jsonl_obj lines;
          prev_hash = last_hash last_event;
          seq = next_seq lines last_event;
          event_id = compact_stamp (now_for_id dr) @ ''-'' @ take 8 (uuid4_hex dr)
      in [(''schema'', JStr ''context-continuity-event-v1''),
          (''seq'', JInt seq),
          (''event_id'', JStr event_id),
          (''timestamp'', JStr (now_for_timestamp dr)),
          (''repo_root'', JStr repo_root),
          (''repo_id'', JStr repo_id_value),
          (''kind'', JStr (strip (arg_kind a))),
          (''status'', JStr (strip (arg_status a))),
          (''summary'', JStr (strip (arg_summary a))),
          (''source'', JStr (strip (arg_source a))),
          (''task'', (case arg_task a of
                        None \<Rightarrow> JNull
                      | Some t \<Rightarrow> if strip t \<noteq> [] then JStr (strip t) else JNull)),
          (''paths'', JArr (map JStr (stripped_items (arg_paths a)))),
          (''symbols'', JArr (map JStr (stripped_items (arg_symbols a)))),
          (''commands'', JArr (map JStr (stripped_items (arg_commands a)))),
          (''refs'', JArr (map JStr (stripped_items (arg_refs a)))),
          (''payload'', JObj (arg_payload a)),
          (''prev_hash'', (if prev_hash \<noteq> [] then JStr prev_hash else JNull))])"

text \<open>\<open>{k: v for k, v in event_no_hash.items() if v not in (None, [], {}, "")}\<close>\<close>

definition event_no_hash ::
  "draw \<Rightarrow> ledger \<Rightarrow> string \<Rightarrow> string \<Rightarrow> append_args \<Rightarrow> dict" where
  "event_no_hash dr lines repo_root repo_id_value a =
     filter (\<lambda>(k, v). nonempty_value v) (event_draft dr lines repo_root repo_id_value a)"

text \<open>\<open>append_event\<close> returns the event and leaves the file one line longer.\<close>

definition append_event ::
  "(string \<Rightarrow> string) \<Rightarrow> draw \<Rightarrow> ledger \<Rightarrow> string \<Rightarrow> string \<Rightarrow> append_args \<Rightarrow> dict \<times> ledger" where
  "append_event sha256 dr lines repo_root repo_id_value a =
     (let e = event_no_hash dr lines repo_root repo_id_value a;
          event_hash = hash_event sha256 e;
          event = dict_set e ''hash'' (JStr event_hash)
      in (event, append_jsonl lines event))"







text \<open>
  A stand-in for SHA-256 on which examples can be evaluated.  Like a hexadecimal digest
  it is never empty.
\<close>

definition sample_digest :: "string \<Rightarrow> string" where
  "sample_digest s = ''sha:'' @ s"

definition sample_draw :: "string \<Rightarrow> draw" where
  "sample_draw second =
     \<lparr>now_for_id = ''2026-01-02T03:04:'' @ second @ ''Z'', uuid4_hex = ''0123456789abcdef'',
      now_for_timestamp = ''2026-01-02T03:04:'' @ second @ ''Z''\<rparr>"



section \<open>The command-line front end of append (capture_event.py)\<close>

text \<open>
  An option is \<open>None\<close> when it is not on the command line; \<open>argparse\<close> then takes
  its default, or stops when the option is required.  \<open>json.loads\<close> and the reading
  of a file are parameters: \<open>None\<close> is text that is not JSON, or a file that cannot be
  read.
\<close>

datatype py_error = ArgparseError | ValueError | JSONDecodeError | OSError | TypeError







section \<open>Chain repair (repair_events_chain.py)\<close>

datatype repair_error = InvalidJSON | InvalidEventType

fun load_events :: "ledger \<Rightarrow> repair_error + dict list" where
  "load_events [] = Inr []"
| "load_events (None # rest) = Inl InvalidJSON"
| "load_events (Some (JObj loaded) # rest) =
     (case load_events rest of Inl err \<Rightarrow> Inl err | Inr events \<Rightarrow> Inr (loaded # events))"
| "load_events (Some _ # rest) = Inl InvalidEventType"

text \<open>The loop of \<open>normalize_chain\<close>, with its two running variables.\<close>

fun normalize_loop :: "(string \<Rightarrow> string) \<Rightarrow> string \<Rightarrow> int \<Rightarrow> dict list \<Rightarrow> dict list" where
  "normalize_loop sha256 prev_hash seq [] = []"
| "normalize_loop sha256 prev_hash seq (event # events) =
     (let seq' = seq + 1;
          n1 = dict_set event ''seq'' (JInt seq');
          n2 = (if prev_hash \<noteq> [] then dict_set n1 ''prev_hash'' (JStr prev_hash)
                else dict_pop n1 ''prev_hash'');
          n3 = dict_pop n2 ''hash'';
          new_hash = hash_event sha256 n3;
          normalized = dict_set n3 ''hash'' (JStr new_hash)
      in normalized # normalize_loop sha256 new_hash seq' events)"

definition normalize_chain :: "(string \<Rightarrow> string) \<Rightarrow> dict list \<Rightarrow> dict list" where
  "normalize_chain sha256 events = normalize_loop sha256 [] 0 events"

text \<open>\<open>any(events[i] != repaired[i] for i in range(len(events)))\<close>\<close>

definition changed :: "dict list \<Rightarrow> dict list \<Rightarrow> bool" where
  "changed events repaired =
     list_ex (\<lambda>i. \<not> py_eq (JObj (events ! i)) (JObj (repaired ! i))) [0 ..< length events]"

definition write_events :: "dict list \<Rightarrow> ledger" where
  "write_events events = map (\<lambda>event. Some (JObj event)) events"

text \<open>
  \<open>main\<close>: the outcome of a run is what it reports, the events file it leaves and the
  backup it took, if any.
\<close>

record repair_run =
  reported_changed :: bool
  reported_status :: string
  events_file :: ledger
  backup_file :: "ledger option"

definition repair_main :: "(string \<Rightarrow> string) \<Rightarrow> bool \<Rightarrow> ledger \<Rightarrow> repair_error + repair_run" where
  "repair_main sha256 dry_run file =
     (case load_events file of
        Inl err \<Rightarrow> Inl err
      | Inr events \<Rightarrow>
          if events = [] then
            Inr \<lparr>reported_changed = False, reported_status = ''nothing to repair'',
                 events_file = file, backup_file = None\<rparr>
          else
            let repaired = normalize_chain sha256 events;
                ch = changed events repaired
            in if dry_run \<or> \<not> ch then
                 Inr \<lparr>reported_changed = ch,
                      reported_status = (if dry_run then ''dry-run complete'' else ''already consistent''),
                      events_file = file, backup_file = None\<rparr>
               else
                 Inr \<lparr>reported_changed = ch, reported_status = ''repaired'',
                      events_file = write_events repaired, backup_file = Some file\<rparr>)"

definition sample_events :: "dict list" where
  "sample_events =
     [[(''summary'', JStr ''a''), (''hash'', JStr ''stale'')],
      [(''seq'', JInt 7), (''summary'', JStr ''b'')]]"

section \<open>Branches, commits and merges (context_ops.py)\<close>

text \<open>
  What the script keeps under the memory root: \<open>context/refs.json\<close> (as
  \<open>json.loads\<close> reads it; \<open>None\<close> when it is absent or not JSON), the commit files
  by commit id, the tracked artifacts, and the ledger.
\<close>

datatype fs_entry = Missing | Directory | Regular string

record store =
  refs_json :: "json option"
  commits :: "(string \<times> dict) list"
  memory_files :: "string \<Rightarrow> fs_entry"
  events_jsonl :: ledger

text \<open>What a run reads from its surroundings: the paths and the clock at each reading.\<close>

record ops_env =
  env_repo_root :: string
  env_mem_root :: string
  env_repo_id :: string
  clock_created :: string
  clock_updated :: string
  clock_commit :: string
  clock_written :: string
  env_draw :: draw

record ops_cli =
  ops_action :: string
  ops_name :: string
  ops_from_ref :: string
  ops_branch :: string
  ops_source :: string
  ops_target :: string
  ops_message :: string
  ops_meta_json :: string
  ops_record_event :: string

datatype exit_status = SystemExit nat | Returned | Raised py_error

datatype printed = Payload dict | ErrorLine string

record ops_run =
  run_exit :: exit_status
  run_printed :: printed
  run_store :: store

definition CTX_SCHEMA :: string where
  "CTX_SCHEMA = ''context-continuity-context-ops-v1''"

definition DEFAULT_TRACKED_FILES :: "string list" where
  "DEFAULT_TRACKED_FILES =
     [''ACTIVE_TASK.md'', ''PROJECT_MEMORY.md'', ''DECISIONS.md'', ''planning/ACTIVE.md'',
      ''typed-memory.json'', ''rehydrated/latest.md'']"

definition refs_path :: "ops_env \<Rightarrow> string" where
  "refs_path env = env_mem_root env @ ''/context/refs.json''"

definition load_json :: "json option \<Rightarrow> dict" where
  "load_json content = (case content of Some (JObj loaded) \<Rightarrow> loaded | _ \<Rightarrow> [])"

text \<open>\<open>d.get(k)\<close> where the missing key gives \<open>None\<close>.\<close>

definition get_or_none :: "dict \<Rightarrow> string \<Rightarrow> json" where
  "get_or_none d k = (case dict_get d k of None \<Rightarrow> JNull | Some v \<Rightarrow> v)"

definition read_refs :: "ops_env \<Rightarrow> store \<Rightarrow> dict \<times> store" where
  "read_refs env st =
     (let loaded = load_json (refs_json st);
          fresh = [(''schema'', JStr CTX_SCHEMA),
                   (''created_at'', JStr (clock_created env)),
                   (''updated_at'', JStr (clock_updated env)),
                   (''active_branch'', JStr ''main''),
                   (''branches'', JObj [(''main'', JNull)])];
          refs1 = (if loaded = [] then fresh else loaded);
          st1 = (if loaded = [] then st\<lparr>refs_json := Some (JObj fresh)\<rparr> else st);
          refs2 = (case dict_get refs1 ''branches'' of
                     Some (JObj b) \<Rightarrow> refs1
                   | _ \<Rightarrow> dict_set refs1 ''branches'' (JObj [(''main'', JNull)]));
          refs3 = (if strip (get_str refs2 ''active_branch'') = []
                   then dict_set refs2 ''active_branch'' (JStr ''main'') else refs2)
      in (refs3, st1))"

definition write_refs :: "ops_env \<Rightarrow> store \<Rightarrow> dict \<Rightarrow> dict \<times> store" where
  "write_refs env st refs =
     (let refs1 = dict_set refs ''schema'' (JStr CTX_SCHEMA);
          refs2 = dict_set refs1 ''updated_at'' (JStr (clock_written env))
      in (refs2, st\<lparr>refs_json := Some (JObj refs2)\<rparr>))"

fun snapshot_files ::
  "(string \<Rightarrow> string) \<Rightarrow> (string \<Rightarrow> fs_entry) \<Rightarrow> string list \<Rightarrow> dict \<Rightarrow> dict" where
  "snapshot_files sha256 fs [] snapshots = snapshots"
| "snapshot_files sha256 fs (rel # files) snapshots =
     (let rel_norm = strip rel
      in if rel_norm = [] then snapshot_files sha256 fs files snapshots
         else
           let entry = [(''path'', JStr rel_norm), (''exists'', JBool (fs rel_norm \<noteq> Missing))];
               entry' = (case fs rel_norm of
                           Regular data \<Rightarrow>
                             dict_set (dict_set entry ''sha256'' (JStr (sha256 data)))
                               ''size_bytes'' (JInt (int (length data)))
                         | _ \<Rightarrow> entry)
           in snapshot_files sha256 fs files (dict_set snapshots rel_norm (JObj entry')))"

text \<open>\<open>_create_commit\<close> returns the commit id and the path of the file it wrote.\<close>

definition create_commit ::
  "(string \<Rightarrow> string) \<Rightarrow> ops_env \<Rightarrow> store \<Rightarrow> string \<Rightarrow> json list \<Rightarrow> string \<Rightarrow> dict \<Rightarrow> string list
   \<Rightarrow> (string \<times> string) \<times> store" where
  "create_commit sha256 env st branch parents message meta tracked_files =
     (let snapshots = snapshot_files sha256 (memory_files st) tracked_files [];
          payload = [(''schema'', JStr CTX_SCHEMA),
                     (''timestamp'', JStr (clock_commit env)),
                     (''branch'', JStr branch),
                     (''parents'', JArr parents),
                     (''message'', JStr (if strip message \<noteq> [] then strip message
                                         else ''context commit'')),
                     (''tracked_files'', JArr (map JStr tracked_files)),
                     (''file_snapshots'', JObj snapshots),
                     (''meta'', JObj meta)];
          digest = take 12 (sha256 (stable_json payload));
          commit_id = ''ctx-'' @ compact_stamp (clock_commit env) @ ''-'' @ digest;
          payload' = dict_set payload ''commit_id'' (JStr commit_id);
          commit_path = env_mem_root env @ ''/context/commits/'' @ commit_id @ ''.json''
      in ((commit_id, commit_path), st\<lparr>commits := AList.update commit_id payload' (commits st)\<rparr>))"

definition active_of :: "dict \<Rightarrow> string" where
  "active_of refs =
     (case dict_get refs ''active_branch'' of
        None \<Rightarrow> ''main''
      | Some v \<Rightarrow> if truthy v then py_str v else ''main'')"

definition branches_of :: "dict \<Rightarrow> dict" where
  "branches_of refs = (case dict_get refs ''branches'' of Some (JObj b) \<Rightarrow> b | _ \<Rightarrow> [])"

definition resolve_from_ref :: "dict \<Rightarrow> string \<Rightarrow> json" where
  "resolve_from_ref refs raw_from =
     (let candidate = strip raw_from;
          branches = (case dict_get refs ''branches'' of
                        Some v \<Rightarrow> (if truthy v then (case v of JObj b \<Rightarrow> b | _ \<Rightarrow> []) else [])
                      | None \<Rightarrow> [])
      in if candidate = [] then get_or_none branches (active_of refs)
         else if dict_get branches candidate \<noteq> None then get_or_none branches candidate
         else JStr candidate)"

definition parse_meta :: "(string \<Rightarrow> json option) \<Rightarrow> string \<Rightarrow> py_error + dict" where
  "parse_meta json_loads meta_json =
     (if strip meta_json = [] then Inr []
      else case json_loads meta_json of
             None \<Rightarrow> Inl JSONDecodeError
           | Some (JObj loaded) \<Rightarrow> Inr loaded
           | Some _ \<Rightarrow> Inl ValueError)"

text \<open>
  Each action either stops the run (\<open>raise SystemExit\<close>) or goes on to the recording of
  an event, with the flag, summary and payload it has set and what it printed.
\<close>

datatype step =
    Stop ops_run
  | Go bool string dict dict store

definition error_exit :: "string \<Rightarrow> store \<Rightarrow> step" where
  "error_exit msg st = Stop \<lparr>run_exit = SystemExit 2, run_printed = ErrorLine msg, run_store = st\<rparr>"

definition action_branch :: "ops_env \<Rightarrow> store \<Rightarrow> dict \<Rightarrow> ops_cli \<Rightarrow> step" where
  "action_branch env st refs args =
     (let branches = branches_of refs; active = active_of refs; branch_name = strip (ops_name args)
      in if branch_name = [] then error_exit ''error: --name is required for --action branch'' st
         else if dict_get branches branch_name \<noteq> None
           then error_exit (''error: branch already exists: '' @ branch_name) st
         else
           let from_head = resolve_from_ref refs (ops_from_ref args);
               branches' = dict_set branches branch_name from_head;
               (refs', st') = write_refs env st (dict_set refs ''branches'' (JObj branches'))
           in Go True (''context branch created '' @ branch_name)
                [(''branch'', JStr branch_name),
                 (''from'', JStr (if strip (ops_from_ref args) \<noteq> [] then strip (ops_from_ref args)
                                  else active)),
                 (''head'', from_head)]
                [(''status'', JStr ''ok''),
                 (''repo_root'', JStr (env_repo_root env)),
                 (''memory_root'', JStr (env_mem_root env)),
                 (''active_branch'', get_or_none refs' ''active_branch''),
                 (''branch'', JStr branch_name),
                 (''head'', from_head)]
                st')"

definition action_switch :: "ops_env \<Rightarrow> store \<Rightarrow> dict \<Rightarrow> ops_cli \<Rightarrow> step" where
  "action_switch env st refs args =
     (let branches = branches_of refs; active = active_of refs; branch_name = strip (ops_name args)
      in if branch_name = [] then error_exit ''error: --name is required for --action switch'' st
         else if dict_get branches branch_name = None
           then error_exit (''error: branch not found: '' @ branch_name) st
         else
           let (refs', st') = write_refs env st (dict_set refs ''active_branch'' (JStr branch_name))
           in Go (branch_name \<noteq> active) (''context branch switched to '' @ branch_name)
                [(''from'', JStr active), (''to'', JStr branch_name)]
                [(''status'', JStr ''ok''),
                 (''repo_root'', JStr (env_repo_root env)),
                 (''memory_root'', JStr (env_mem_root env)),
                 (''active_branch'', JStr branch_name),
                 (''head'', get_or_none branches branch_name)]
                st')"

definition action_commit ::
  "(string \<Rightarrow> string) \<Rightarrow> ops_env \<Rightarrow> store \<Rightarrow> dict \<Rightarrow> dict \<Rightarrow> ops_cli \<Rightarrow> step" where
  "action_commit sha256 env st refs meta args =
     (let branches = branches_of refs; active = active_of refs;
          branch_name = (if strip (ops_branch args) \<noteq> [] then strip (ops_branch args) else active)
      in if dict_get branches branch_name = None
           then error_exit (''error: branch not found: '' @ branch_name) st
         else
           let parent = get_or_none branches branch_name;
               parents = (if truthy parent then [parent] else []);
               message = (if strip (ops_message args) \<noteq> [] then strip (ops_message args)
                          else ''context commit on '' @ branch_name);
               ((commit_id, commit_path), st1) =
                  create_commit sha256 env st branch_name parents message meta DEFAULT_TRACKED_FILES;
               branches' = dict_set branches branch_name (JStr commit_id);
               (refs', st') = write_refs env st1
                  (dict_set (dict_set refs ''branches'' (JObj branches'))
                     ''active_branch'' (JStr branch_name))
           in Go True (''context commit '' @ commit_id @ '' on '' @ branch_name)
                [(''branch'', JStr branch_name),
                 (''commit_id'', JStr commit_id),
                 (''parents'', JArr parents),
                 (''commit_path'', JStr commit_path)]
                [(''status'', JStr ''ok''),
                 (''repo_root'', JStr (env_repo_root env)),
                 (''memory_root'', JStr (env_mem_root env)),
                 (''branch'', JStr branch_name),
                 (''commit_id'', JStr commit_id),
                 (''commit_file'', JStr commit_path)]
                st')"

definition action_merge ::
  "(string \<Rightarrow> string) \<Rightarrow> ops_env \<Rightarrow> store \<Rightarrow> dict \<Rightarrow> dict \<Rightarrow> ops_cli \<Rightarrow> step" where
  "action_merge sha256 env st refs meta args =
     (let branches = branches_of refs; active = active_of refs;
          source = strip (ops_source args);
          target = (if strip (ops_target args) \<noteq> [] then strip (ops_target args) else active)
      in if source = [] then error_exit ''error: --source is required for --action merge'' st
         else if dict_get branches source = None
           then error_exit (''error: source branch not found: '' @ source) st
         else if dict_get branches target = None
           then error_exit (''error: target branch not found: '' @ target) st
         else
           let source_head = get_or_none branches source;
               target_head = get_or_none branches target
           in if \<not> truthy source_head
                then error_exit (''error: source branch has no head commit: '' @ source) st
              else if py_eq source_head target_head then
                Stop \<lparr>run_exit = SystemExit 0,
                      run_printed = Payload
                        [(''status'', JStr ''ok''),
                         (''repo_root'', JStr (env_repo_root env)),
                         (''memory_root'', JStr (env_mem_root env)),
                         (''message'', JStr ''no-op merge (heads already equal)''),
                         (''source'', JStr source),
                         (''target'', JStr target),
                         (''head'', target_head)],
                      run_store = st\<rparr>
              else
                let parents = filter truthy [target_head, source_head];
                    message = (if strip (ops_message args) \<noteq> [] then strip (ops_message args)
                               else ''merge '' @ source @ '' into '' @ target);
                    ((commit_id, commit_path), st1) =
                       create_commit sha256 env st target parents message
                         (foldl (\<lambda>d (k, v). dict_set d k v)
                            [(''source_branch'', JStr source), (''target_branch'', JStr target)] meta)
                         DEFAULT_TRACKED_FILES;
                    branches' = dict_set branches target (JStr commit_id);
                    (refs', st') = write_refs env st1
                       (dict_set (dict_set refs ''branches'' (JObj branches'))
                          ''active_branch'' (JStr target))
                in Go True (''context merge '' @ source @ '' -> '' @ target @ '' ('' @ commit_id @ '')'')
                     [(''source'', JStr source),
                      (''target'', JStr target),
                      (''source_head'', source_head),
                      (''target_prev_head'', target_head),
                      (''merge_commit'', JStr commit_id),
                      (''commit_path'', JStr commit_path)]
                     [(''status'', JStr ''ok''),
                      (''repo_root'', JStr (env_repo_root env)),
                      (''memory_root'', JStr (env_mem_root env)),
                      (''source'', JStr source),
                      (''target'', JStr target),
                      (''merge_commit'', JStr commit_id),
                      (''commit_file'', JStr commit_path)]
                     st')"

definition action_choices :: "string list" where
  "action_choices = [''init'', ''status'', ''list'', ''commit'', ''branch'', ''switch'', ''merge'']"

definition record_event_choices :: "string list" where
  "record_event_choices = [''off'', ''on-change'', ''always'']"

definition record_step :: "(string \<Rightarrow> string) \<Rightarrow> ops_env \<Rightarrow> ops_cli \<Rightarrow> step \<Rightarrow> ops_run" where
  "record_step sha256 env args s =
     (case s of
        Stop r \<Rightarrow> r
      | Go event_needed event_summary event_payload shown st \<Rightarrow>
          let should_record = (ops_record_event args = ''always'' \<or>
                               (ops_record_event args = ''on-change'' \<and> event_needed));
              st' = (if should_record \<and> event_summary \<noteq> [] then
                       st\<lparr>events_jsonl :=
                            snd (append_event sha256 (env_draw env) (events_jsonl st)
                                   (env_repo_root env) (env_repo_id env)
                                   \<lparr>arg_kind = ''context-op'', arg_status = ''success'',
                                    arg_summary = event_summary, arg_source = ''context-ops'',
                                    arg_task = Some ''continuity-optimization'', arg_paths = [],
                                    arg_symbols = [], arg_commands = [], arg_refs = [],
                                    arg_payload = event_payload\<rparr>)\<rparr>
                     else st)
          in \<lparr>run_exit = Returned, run_printed = Payload shown, run_store = st'\<rparr>)"

definition ops_main ::
  "(string \<Rightarrow> string) \<Rightarrow> (string \<Rightarrow> json option) \<Rightarrow> ops_env \<Rightarrow> store \<Rightarrow> ops_cli \<Rightarrow> ops_run" where
  "ops_main sha256 json_loads env st0 args =
     (if ops_action args \<notin> set action_choices \<or> ops_record_event args \<notin> set record_event_choices
        then \<lparr>run_exit = SystemExit 2, run_printed = ErrorLine ''usage'', run_store = st0\<rparr>
      else
        let (refs0, st) = read_refs env st0;
            branches = branches_of refs0;
            refs = dict_set refs0 ''branches'' (JObj branches);
            active = active_of refs
        in case parse_meta json_loads (ops_meta_json args) of
             Inl err \<Rightarrow> \<lparr>run_exit = Raised err, run_printed = ErrorLine [], run_store = st\<rparr>
           | Inr meta \<Rightarrow>
               if ops_action args = ''init'' then
                 let (refs', st') = write_refs env st refs
                 in \<lparr>run_exit = SystemExit 0,
                     run_printed = Payload
                       [(''status'', JStr ''ok''),
                        (''repo_root'', JStr (env_repo_root env)),
                        (''memory_root'', JStr (env_mem_root env)),
                        (''refs_file'', JStr (refs_path env)),
                        (''active_branch'', get_or_none refs' ''active_branch''),
                        (''branch_count'', JInt (int (length branches)))],
                     run_store = st'\<rparr>
               else if ops_action args \<in> {''status'', ''list''} then
                 \<lparr>run_exit = SystemExit 0,
                  run_printed = Payload
                    [(''status'', JStr ''ok''),
                     (''repo_root'', JStr (env_repo_root env)),
                     (''memory_root'', JStr (env_mem_root env)),
                     (''refs_file'', JStr (refs_path env)),
                     (''active_branch'', JStr active),
                     (''branch_count'', JInt (int (length branches))),
                     (''commit_count'', JInt (int (length (commits st)))),
                     (''branches'', JObj branches)],
                  run_store = st\<rparr>
               else if ops_action args = ''branch'' then
                 record_step sha256 env args (action_branch env st refs args)
               else if ops_action args = ''switch'' then
                 record_step sha256 env args (action_switch env st refs args)
               else if ops_action args = ''commit'' then
                 record_step sha256 env args (action_commit sha256 env st refs meta args)
               else if ops_action args = ''merge'' then
                 record_step sha256 env args (action_merge sha256 env st refs meta args)
               else \<lparr>run_exit = SystemExit 2,
                     run_printed = ErrorLine (''error: unsupported action '' @ ops_action args),
                     run_store = st\<rparr>)"

text \<open>
  The branch map and the active branch a run works with (what \<open>main\<close> holds after
  \<open>_read_refs\<close>), and the branch map a store holds on disk.
\<close>

definition seen_branches :: "ops_env \<Rightarrow> store \<Rightarrow> dict" where
  "seen_branches env st = branches_of (fst (read_refs env st))"

definition seen_active :: "ops_env \<Rightarrow> store \<Rightarrow> string" where
  "seen_active env st = active_of (fst (read_refs env st))"

definition stored_branches :: "store \<Rightarrow> dict" where
  "stored_branches st = branches_of (load_json (refs_json st))"

definition merge_target :: "ops_env \<Rightarrow> store \<Rightarrow> ops_cli \<Rightarrow> string" where
  "merge_target env st args =
     (if strip (ops_target args) \<noteq> [] then strip (ops_target args) else seen_active env st)"

definition sample_env :: ops_env where
  "sample_env =
     \<lparr>env_repo_root = ''/repo'', env_mem_root = ''/home/.codex/memory/context-continuity/repo--0a1b2c3d4e'',
      env_repo_id = ''repo--0a1b2c3d4e'',
      clock_created = ''2026-01-02T03:04:05Z'', clock_updated = ''2026-01-02T03:04:05Z'',
      clock_commit = ''2026-01-02T03:04:06Z'', clock_written = ''2026-01-02T03:04:07Z'',
      env_draw = sample_draw ''08''\<rparr>"

definition sample_refs :: "dict \<Rightarrow> json" where
  "sample_refs branches =
     JObj [(''schema'', JStr CTX_SCHEMA), (''created_at'', JStr ''2026-01-01T00:00:00Z''),
           (''updated_at'', JStr ''2026-01-01T00:00:00Z''), (''active_branch'', JStr ''main''),
           (''branches'', JObj branches)]"

definition sample_store :: "json option \<Rightarrow> store" where
  "sample_store refs =
     \<lparr>refs_json = refs, commits = [], memory_files = (\<lambda>rel. Missing), events_jsonl = []\<rparr>"

definition sample_ops :: "string \<Rightarrow> ops_cli" where
  "sample_ops action =
     \<lparr>ops_action = action, ops_name = [], ops_from_ref = [], ops_branch = [], ops_source = [],
      ops_target = [], ops_message = [], ops_meta_json = [], ops_record_event = ''on-change''\<rparr>"

section \<open>The context compiler (rehydrate.py)\<close>

text \<open>\<open>str.lower\<close> on code points below 256, the substring test \<open>sub in s\<close>, and
  \<open>xs[:n]\<close> for an integer \<open>n\<close> of either sign.\<close>

definition lower_char :: "char \<Rightarrow> char" where
  "lower_char c =
     (let n = (of_char c :: nat)
      in if (65 \<le> n \<and> n \<le> 90) \<or> (192 \<le> n \<and> n \<le> 222 \<and> n \<noteq> 215) then char_of (n + 32) else c)"

definition lower :: "string \<Rightarrow> string" where
  "lower s = map lower_char s"

fun contains :: "string \<Rightarrow> string \<Rightarrow> bool" where
  "contains sub [] = (sub = [])"
| "contains sub (c # s) = (take (length sub) (c # s) = sub \<or> contains sub s)"

definition py_take :: "int \<Rightarrow> 'a list \<Rightarrow> 'a list" where
  "py_take n xs = (if 0 \<le> n then take (nat n) xs else take (length xs - nat (- n)) xs)"

text \<open>\<open>xs.sort(key=f, reverse=True)\<close>: descending, equal keys in their original order.\<close>

definition sorted_reverse :: "('a \<Rightarrow> 'k::linorder) \<Rightarrow> 'a list \<Rightarrow> 'a list" where
  "sorted_reverse f xs = rev (sort_key f (rev xs))"

text \<open>
  \<open>tokenize_terms\<close>: the maximal runs of \<open>[a-zA-Z0-9_./-]\<close> in the lowered text that
  are at least 3 long.  The source holds them in a set; here they are a list without
  repetition, in order of first appearance.
\<close>

definition term_char :: "char \<Rightarrow> bool" where
  "term_char c =
     (let n = (of_char c :: nat)
      in (97 \<le> n \<and> n \<le> 122) \<or> (65 \<le> n \<and> n \<le> 90) \<or> (48 \<le> n \<and> n \<le> 57)
         \<or> c \<in> set ''_./-'')"

fun findall_runs :: "(char \<Rightarrow> bool) \<Rightarrow> string \<Rightarrow> string \<Rightarrow> string list" where
  "findall_runs p cur [] = (if cur = [] then [] else [cur])"
| "findall_runs p cur (c # cs) =
     (if p c then findall_runs p (cur @ [c]) cs
      else if cur = [] then findall_runs p [] cs
      else cur # findall_runs p [] cs)"

definition tokenize_terms :: "string \<Rightarrow> string list" where
  "tokenize_terms text =
     unique_keep_order (filter (\<lambda>w. 3 \<le> length w) (findall_runs term_char [] (lower text)))"

text \<open>\<open>str(d.get(k) or default)\<close> and the iteration \<open>for v in d.get(k) or []\<close>, which
  raises \<open>TypeError\<close> on a number.\<close>

definition get_str_or :: "dict \<Rightarrow> string \<Rightarrow> string \<Rightarrow> string" where
  "get_str_or d k dflt =
     (case dict_get d k of
        None \<Rightarrow> dflt
      | Some v \<Rightarrow> if truthy v then py_str v else dflt)"

definition iter_or_empty :: "dict \<Rightarrow> string \<Rightarrow> py_error + json list" where
  "iter_or_empty d k =
     (case dict_get d k of
        None \<Rightarrow> Inr []
      | Some v \<Rightarrow>
          if \<not> truthy v then Inr []
          else (case v of
                  JArr xs \<Rightarrow> Inr xs
                | JStr s \<Rightarrow> Inr (map (\<lambda>c. JStr [c]) s)
                | JObj kvs \<Rightarrow> Inr (map (\<lambda>(key, val). JStr key) kvs)
                | _ \<Rightarrow> Inl TypeError))"

definition kind_bonus :: "string \<Rightarrow> int" where
  "kind_bonus kind =
     (if kind \<in> {''risk'', ''incident'', ''failure''} then 12
      else if kind \<in> {''decision'', ''typed-memory'', ''automation''} then 8
      else if kind \<in> {''test'', ''verify'', ''benchmark''} then 7
      else 0)"

definition status_bonus :: "string \<Rightarrow> int" where
  "status_bonus status =
     (if status = ''failure'' then 22
      else if status = ''warning'' then 14
      else if status = ''success'' then 7
      else 0)"

text \<open>\<open>event_score\<close> returns the score and its breakdown.\<close>

definition event_score :: "dict \<Rightarrow> int \<Rightarrow> string list \<Rightarrow> string \<Rightarrow> py_error + int \<times> dict" where
  "event_score event recency_rank terms task_focus =
     (case iter_or_empty event ''paths'' of
        Inl err \<Rightarrow> Inl err
      | Inr paths \<Rightarrow>
     (case iter_or_empty event ''symbols'' of
        Inl err \<Rightarrow> Inl err
      | Inr symbols \<Rightarrow>
          let recency = max 0 (28 - recency_rank);
              status = lower (get_str event ''status'');
              kind = lower (strip (get_str event ''kind''));
              haystack = lower (join '' ''
                [get_str event ''summary'', get_str event ''task'', get_str event ''kind'',
                 join '' '' (map py_str paths), join '' '' (map py_str symbols)]);
              term_hits = filter (\<lambda>term. contains term haystack) terms;
              task_match = (task_focus \<noteq> [] \<and> contains (lower task_focus) haystack);
              score = recency + status_bonus status + kind_bonus kind
                      + 5 * int (length term_hits) + (if task_match then 9 else 0)
          in Inr (score,
                  [(''recency_rank'', JInt recency_rank),
                   (''recency_score'', JInt recency),
                   (''status_bonus'', JInt (status_bonus status)),
                   (''kind_bonus'', JInt (kind_bonus kind)),
                   (''term_hits'', JArr (map JStr term_hits)),
                   (''task_match'', JBool task_match)])))"

definition render_event_line :: "dict \<Rightarrow> py_error + string" where
  "render_event_line event =
     (case iter_or_empty event ''paths'' of
        Inl err \<Rightarrow> Inl err
      | Inr path_values \<Rightarrow>
          let seq = (case dict_get event ''seq'' of None \<Rightarrow> ''?'' | Some v \<Rightarrow> py_str v);
              ts = get_str_or event ''timestamp'' ''?'';
              kind = get_str_or event ''kind'' ''note'';
              status = get_str_or event ''status'' ''info'';
              summary = strip (get_str event ''summary'');
              event_hash = take 10 (get_str event ''hash'');
              paths = filter (\<lambda>p. strip p \<noteq> []) (map py_str path_values);
              line = ''- E'' @ seq @ '' ['' @ ts @ ''] '' @ kind @ ''/'' @ status @ '': '' @ summary;
              line1 = (if paths \<noteq> [] then line @ '' | paths: '' @ join '', '' (take 3 paths) else line);
              line2 = (if event_hash \<noteq> [] then line1 @ '' | hash:'' @ event_hash else line1)
          in Inr line2)"

text \<open>A row of \<open>scored\<close>: the score, minus the recency rank, the event and the breakdown.\<close>

type_synonym scored_row = "int \<times> int \<times> dict \<times> dict"

definition row_key :: "scored_row \<Rightarrow> int \<times> int" where
  "row_key row = (fst row, fst (snd row))"

fun score_events :: "string list \<Rightarrow> string \<Rightarrow> int \<Rightarrow> dict list \<Rightarrow> py_error + scored_row list" where
  "score_events terms task_focus idx [] = Inr []"
| "score_events terms task_focus idx (event # rest) =
     (case event_score event idx terms task_focus of
        Inl err \<Rightarrow> Inl err
      | Inr (score, trace) \<Rightarrow>
          (case score_events terms task_focus (idx + 1) rest of
             Inl err \<Rightarrow> Inl err
           | Inr rows \<Rightarrow> Inr ((score, - idx, event, trace) # rows)))"

definition rank_events :: "string list \<Rightarrow> string \<Rightarrow> dict list \<Rightarrow> py_error + scored_row list" where
  "rank_events terms task_focus events =
     (case score_events terms task_focus 0 (rev events) of
        Inl err \<Rightarrow> Inl err
      | Inr scored \<Rightarrow> Inr (sorted_reverse row_key scored))"

fun render_all :: "dict list \<Rightarrow> py_error + string list" where
  "render_all [] = Inr []"
| "render_all (event # rest) =
     (case render_event_line event of
        Inl err \<Rightarrow> Inl err
      | Inr line \<Rightarrow>
          (case render_all rest of Inl err \<Rightarrow> Inl err | Inr ls \<Rightarrow> Inr (line # ls)))"

text \<open>
  What \<open>main\<close> has in hand when it starts to assemble the document: the surroundings,
  the options, and the texts cut from the notes and from typed memory, each already
  trimmed by \<open>compact_lines\<close> and the like.  None of them depends on the budget.
\<close>

record compile_env =
  at_now :: string
  at_repo_root :: string
  at_mem_root :: string
  at_events_path :: string
  at_typed_memory_path :: string

record compile_args =
  opt_budget_tokens :: int
  opt_query :: string
  opt_task :: string
  opt_max_events :: int

record note_texts =
  objective_text :: string
  criteria_text :: string
  constraints_text :: string
  key_paths_text :: string
  status_text :: string
  commands_text :: string
  project_repo_text :: string
  project_arch_text :: string
  decision_titles :: "string list"
  capsule_rel :: string
  capsule_md :: string
  capsule_excerpt :: string
  typed_memory :: dict
  top_tasks_text :: string
  top_paths_signal_text :: string
  open_risks_text :: string
  recent_decisions_text :: string

definition nl :: string where
  "nl = [CHR 0x0A]"

definition tick :: string where
  "tick = [CHR 0x60]"

definition str_bool :: "bool \<Rightarrow> string" where
  "str_bool b = (if b then ''True'' else ''False'')"

definition header_text :: "compile_env \<Rightarrow> compile_args \<Rightarrow> note_texts \<Rightarrow> string" where
  "header_text env args n =
     ''# Rehydrated Context'' @ nl @ nl
     @ ''- Generated: '' @ tick @ at_now env @ tick @ nl
     @ ''- Repo root: '' @ tick @ at_repo_root env @ tick @ nl
     @ ''- Memory root: '' @ tick @ at_mem_root env @ tick @ nl
     @ ''- Token budget (approx): '' @ tick @ str_int (opt_budget_tokens args) @ tick @ nl
     @ ''- Focus query: '' @ tick @ (if strip (opt_query args) \<noteq> [] then strip (opt_query args) else ''none'')
         @ tick @ nl
     @ ''- Focus task: '' @ tick @ (if strip (opt_task args) \<noteq> [] then strip (opt_task args) else ''none'')
         @ tick @ nl
     @ ''- Typed memory: '' @ tick
         @ (if typed_memory n \<noteq> [] then at_typed_memory_path env else ''none'') @ tick @ nl"

type_synonym candidate = "string \<times> string \<times> int"

definition block_candidates :: "note_texts \<Rightarrow> string list \<Rightarrow> candidate list" where
  "block_candidates n rendered_events =
     sorted_reverse (\<lambda>item. snd (snd item))
       [(''Active Objective'', objective_text n, 100),
        (''Acceptance Criteria'', criteria_text n, 95),
        (''Constraints / Non-Goals'', constraints_text n, 90),
        (''Current Status'', status_text n, 88),
        (''Key Paths'', key_paths_text n, 87),
        (''Verification Commands'', commands_text n, 86),
        (''Open Risks (Typed)'', open_risks_text n, 85),
        (''Top Task Signals (Typed)'', top_tasks_text n, 84),
        (''Top Path Signals (Typed)'', top_paths_signal_text n, 83),
        (''Recent Decisions (Typed)'', recent_decisions_text n, 82),
        (''Project Repo Facts'', project_repo_text n, 72),
        (''Project Architecture Facts'', project_arch_text n, 70),
        (''Recent Decisions'', join nl (map (\<lambda>title. ''- '' @ title) (decision_titles n)), 68),
        (''Capsule Pointer'',
           ''- Active capsule: '' @ tick @ capsule_rel n @ tick @ nl
           @ ''- Capsule file exists: '' @ tick @ str_bool (capsule_md n \<noteq> []) @ tick, 66),
        (''Capsule Excerpt'', capsule_excerpt n, 62),
        (''Ranked Events'', join nl rendered_events, 58)]"

text \<open>The packing loop, with the four variables it updates.\<close>

record plan_row =
  row_title :: string
  row_priority :: int
  row_approx_tokens :: int
  row_included :: bool

record plan =
  selected_blocks :: "string list"
  used_tokens :: int
  omitted_titles :: "string list"
  planner_trace :: "plan_row list"

definition block_text :: "string \<Rightarrow> string \<Rightarrow> string" where
  "block_text title body = ''## '' @ title @ nl @ nl @ strip body @ nl"

fun plan_blocks :: "int \<Rightarrow> candidate list \<Rightarrow> plan \<Rightarrow> plan" where
  "plan_blocks budget [] p = p"
| "plan_blocks budget ((title, body, priority) # rest) p =
     (if strip body = [] then plan_blocks budget rest p
      else
        let block = block_text title body;
            block_tokens = approx_tokens block;
            included = (used_tokens p + block_tokens \<le> budget);
            p1 = p\<lparr>planner_trace := planner_trace p
                     @ [\<lparr>row_title = title, row_priority = priority,
                          row_approx_tokens = block_tokens, row_included = included\<rparr>]\<rparr>
        in if \<not> included
             then plan_blocks budget rest (p1\<lparr>omitted_titles := omitted_titles p1 @ [title]\<rparr>)
           else plan_blocks budget rest
                  (p1\<lparr>selected_blocks := selected_blocks p1 @ [block],
                      used_tokens := used_tokens p1 + block_tokens\<rparr>))"

definition footer_text :: "compile_env \<Rightarrow> plan \<Rightarrow> string" where
  "footer_text env p =
     ''## Budget Summary'' @ nl @ nl
     @ ''- Approx tokens used: '' @ tick @ str_int (used_tokens p) @ tick @ nl
     @ ''- Blocks omitted by budget: '' @ tick
         @ (if omitted_titles p \<noteq> [] then join '', '' (omitted_titles p) else ''none'') @ tick @ nl
     @ ''- Evidence source: '' @ tick @ at_events_path env @ tick @ nl"

text \<open>What a compilation gives: the document, the blocks it is joined from, the running
  total, and the rows of the trace.\<close>

record compiled =
  doc_output :: string
  doc_blocks :: "string list"
  doc_used_tokens :: int
  doc_omitted :: "string list"
  doc_planner_trace :: "plan_row list"
  doc_selected_events :: "scored_row list"
  doc_event_ranking :: "scored_row list"

definition query_terms_of :: "compile_args \<Rightarrow> note_texts \<Rightarrow> string list" where
  "query_terms_of args n =
     tokenize_terms (join '' '' [opt_query args, opt_task args, objective_text n, top_tasks_text n,
                                 top_paths_signal_text n])"

definition start_plan :: "string \<Rightarrow> plan" where
  "start_plan header =
     \<lparr>selected_blocks = [header], used_tokens = approx_tokens header, omitted_titles = [],
      planner_trace = []\<rparr>"

definition assemble :: "compile_env \<Rightarrow> compile_args \<Rightarrow> note_texts \<Rightarrow> string list \<Rightarrow> plan" where
  "assemble env args n rendered_events =
     plan_blocks (opt_budget_tokens args) (block_candidates n rendered_events)
       (start_plan (header_text env args n))"

definition compile_context ::
  "compile_env \<Rightarrow> compile_args \<Rightarrow> note_texts \<Rightarrow> dict list \<Rightarrow> py_error + compiled" where
  "compile_context env args n events =
     (case rank_events (query_terms_of args n) (strip (opt_task args)) events of
        Inl err \<Rightarrow> Inl err
      | Inr scored \<Rightarrow>
          let selected = py_take (opt_max_events args) scored;
              selected_events = map (\<lambda>row. fst (snd (snd row))) selected
          in case render_all selected_events of
               Inl err \<Rightarrow> Inl err
             | Inr rendered_events \<Rightarrow>
                 let p = assemble env args n rendered_events;
                     footer = footer_text env p;
                     blocks = selected_blocks p @ [footer]
                 in Inr \<lparr>doc_output = rstrip (join nl blocks) @ nl,
                         doc_blocks = blocks,
                         doc_used_tokens = used_tokens p,
                         doc_omitted = omitted_titles p,
                         doc_planner_trace = planner_trace p,
                         doc_selected_events = selected,
                         doc_event_ranking = py_take (max (opt_max_events args * 2) 20) scored\<rparr>)"

text \<open>
  The rows the packing loop adds to the trace, as a function of the running total the
  loop starts from.
\<close>

fun pack_rows :: "int \<Rightarrow> int \<Rightarrow> candidate list \<Rightarrow> plan_row list" where
  "pack_rows budget used [] = []"
| "pack_rows budget used ((title, body, priority) # rest) =
     (if strip body = [] then pack_rows budget used rest
      else
        let block_tokens = approx_tokens (block_text title body);
            included = (used + block_tokens \<le> budget)
        in \<lparr>row_title = title, row_priority = priority, row_approx_tokens = block_tokens,
            row_included = included\<rparr>
           # pack_rows budget (if included then used + block_tokens else used) rest)"

definition included_tokens :: "plan_row list \<Rightarrow> int" where
  "included_tokens rows = sum_list (map row_approx_tokens (filter row_included rows))"

section \<open>Properties of the ledger\<close>

subsection \<open>Records written by append\<close>
















subsection \<open>What append accepts\<close>








subsection \<open>Chain repair\<close>


lemma normalize_loop_length: "length (normalize_loop H p s es) = length es"
  by (induction es arbitrary: p s) (simp_all add: Let_def)

lemma normalize_step_fixed:
  assumes "n3 = dict_pop n2 ''hash''"
    and "n2 = (if p \<noteq> [] then dict_set n1 ''prev_hash'' (JStr p) else dict_pop n1 ''prev_hash'')"
    and "n1 = dict_set e ''seq'' (JInt s)"
    and "n4 = dict_set n3 ''hash'' (JStr h)"
  shows "dict_pop (if p \<noteq> [] then dict_set (dict_set n4 ''seq'' (JInt s)) ''prev_hash'' (JStr p)
                   else dict_pop (dict_set n4 ''seq'' (JInt s)) ''prev_hash'') ''hash'' = n3"
proof -
  have seq3: "map_of n3 ''seq'' = Some (JInt s)"
    using assms(1-3) by (simp add: dict_pop_def dict_set_def update_conv' delete_conv')
  have seq4: "map_of n4 ''seq'' = Some (JInt s)"
    using seq3 assms(4) by (simp add: dict_set_def update_conv')
  have a: "dict_set n4 ''seq'' (JInt s) = n4"
    using seq4 by (simp add: dict_set_def update_triv)
  have nohash: "''hash'' \<notin> fst ` set n3"
    using assms(1) by (simp add: dict_pop_def delete_notin_dom)
  have pop4: "dict_pop n4 ''hash'' = n3"
    using nohash assms(4) by (simp add: dict_pop_def dict_set_def delete_update_same)
  show ?thesis
  proof (cases "p = []")
    case True
    have "''prev_hash'' \<notin> fst ` set n2" using True assms(2) by (simp add: dict_pop_def delete_notin_dom)
    then have "''prev_hash'' \<notin> fst ` set n3" using assms(1) dom_delete_subset[of "''hash''" n2]
      by (auto simp: dict_pop_def)
    then have "''prev_hash'' \<notin> fst ` set n4" using assms(4) by (simp add: dict_set_def dom_update)
    then have "dict_pop n4 ''prev_hash'' = n4" by (simp add: dict_pop_def)
    then show ?thesis using True a pop4 by simp
  next
    case False
    have "map_of n2 ''prev_hash'' = Some (JStr p)" using False assms(2) by (simp add: dict_set_def update_conv')
    then have "map_of n3 ''prev_hash'' = Some (JStr p)" using assms(1) by (simp add: dict_pop_def)
    then have "map_of n4 ''prev_hash'' = Some (JStr p)" using assms(4) by (simp add: dict_set_def update_conv')
    then have "dict_set n4 ''prev_hash'' (JStr p) = n4" by (simp add: dict_set_def update_triv)
    then show ?thesis using False a pop4 by simp
  qed
qed

lemma normalize_loop_idem:
  "normalize_loop H p s (normalize_loop H p s es) = normalize_loop H p s es"
proof (induction es arbitrary: p s)
  case Nil
  then show ?case by simp
next
  case (Cons e es)
  define n1 where "n1 = dict_set e ''seq'' (JInt (s + 1))"
  define n2 where "n2 = (if p \<noteq> [] then dict_set n1 ''prev_hash'' (JStr p) else dict_pop n1 ''prev_hash'')"
  define n3 where "n3 = dict_pop n2 ''hash''"
  define h where "h = hash_event H n3"
  define n4 where "n4 = dict_set n3 ''hash'' (JStr h)"
  have first: "normalize_loop H p s (e # es) = n4 # normalize_loop H h (s + 1) es"
    by (simp add: Let_def n1_def n2_def n3_def h_def n4_def)
  have fixed: "dict_pop (if p \<noteq> [] then dict_set (dict_set n4 ''seq'' (JInt (s + 1))) ''prev_hash'' (JStr p)
                   else dict_pop (dict_set n4 ''seq'' (JInt (s + 1))) ''prev_hash'') ''hash'' = n3"
    by (rule normalize_step_fixed[OF n3_def n2_def n1_def n4_def])
  have second: "normalize_loop H p s (n4 # rest) = n4 # normalize_loop H h (s + 1) rest" for rest
  proof (cases "p = []")
    case True
    with fixed have "dict_pop (dict_pop (dict_set n4 ''seq'' (JInt (s + 1))) ''prev_hash'') ''hash'' = n3"
      by simp
    then show ?thesis using True by (simp add: Let_def h_def n4_def)
  next
    case False
    with fixed have "dict_pop (dict_set (dict_set n4 ''seq'' (JInt (s + 1))) ''prev_hash'' (JStr p)) ''hash'' = n3"
      by simp
    then show ?thesis using False by (simp add: Let_def h_def n4_def)
  qed
  show ?case using first second Cons.IH by simp
qed

lemma py_eq_refl_all:
  "wf_json v \<longrightarrow> py_eq v v"
  "wf_list vs \<longrightarrow> py_eq_list vs vs"
  "wf_items kvs \<longrightarrow> (\<forall>b. (\<forall>(k, v) \<in> set kvs. map_of b k = Some v) \<longrightarrow> py_eq_items kvs b)"
proof (induction v and vs and kvs rule: wf_json_wf_list_wf_items.induct)
  case (2 kvs)
  show ?case
  proof
    assume wf: "wf_json (JObj kvs)"
    then have d: "distinct (map fst kvs)" and w: "wf_items kvs" by simp_all
    from d have "\<forall>(k, v) \<in> set kvs. map_of kvs k = Some v" by auto
    with 2 w have "py_eq_items kvs kvs" by blast
    then show "py_eq (JObj kvs) (JObj kvs)" by simp
  qed
qed auto

lemma py_eq_refl: "wf_json v \<Longrightarrow> py_eq v v"
  using py_eq_refl_all(1) by blast

lemma wf_items_update: "wf_items d \<Longrightarrow> wf_json v \<Longrightarrow> wf_items (AList.update k v d)"
  by (induction d) auto

lemma wf_items_delete: "wf_items d \<Longrightarrow> wf_items (AList.delete k d)"
  by (induction d) (auto simp: AList.delete_eq)

lemma wf_dict_set: "wf_dict d \<Longrightarrow> wf_json v \<Longrightarrow> wf_dict (dict_set d k v)"
  by (simp add: wf_dict_def dict_set_def wf_items_update distinct_update)

lemma wf_dict_pop: "wf_dict d \<Longrightarrow> wf_dict (dict_pop d k)"
  by (simp add: wf_dict_def dict_pop_def wf_items_delete distinct_delete)

lemma normalize_loop_wf:
  "\<forall>e \<in> set es. wf_dict e \<Longrightarrow> \<forall>e \<in> set (normalize_loop H p s es). wf_dict e"
  by (induction es arbitrary: p s) (simp_all add: Let_def wf_dict_set wf_dict_pop)

lemma changed_same: "\<forall>e \<in> set es. wf_dict e \<Longrightarrow> \<not> changed es es"
proof -
  assume wf: "\<forall>e \<in> set es. wf_dict e"
  have "py_eq (JObj (es ! i)) (JObj (es ! i))" if "i < length es" for i
    using wf that py_eq_refl[of "JObj (es ! i)"] by (simp add: wf_dict_def del: py_eq.simps wf_json.simps)
  then show ?thesis by (simp add: changed_def list_ex_iff del: py_eq.simps)
qed

lemma normalize_loop_other_fields:
  "i < length es \<Longrightarrow> k \<noteq> ''seq'' \<Longrightarrow> k \<noteq> ''prev_hash'' \<Longrightarrow> k \<noteq> ''hash'' \<Longrightarrow>
   dict_get (normalize_loop H p s es ! i) k = dict_get (es ! i) k"
proof (induction es arbitrary: p s i)
  case Nil
  then show ?case by simp
next
  case (Cons e es)
  show ?case
  proof (cases i)
    case 0
    with Cons.prems show ?thesis
      by (simp add: Let_def dict_get_def dict_set_def dict_pop_def update_conv' delete_conv')
  next
    case (Suc j)
    with Cons show ?thesis by (simp add: Let_def)
  qed
qed


lemma load_events_Inr: "load_events lns = Inr es \<Longrightarrow> lns = write_events es"
proof (induction lns arbitrary: es rule: load_events.induct)
  case (3 loaded rest)
  then show ?case by (auto simp: write_events_def split: sum.splits)
qed (auto simp: write_events_def)

lemma load_events_write: "load_events (write_events es) = Inr es"
  by (induction es) (simp_all add: write_events_def)

lemma normalize_chain_idem: "normalize_chain H (normalize_chain H es) = normalize_chain H es"
  by (simp add: normalize_chain_def normalize_loop_idem)

lemma normalize_chain_wf: "\<forall>e \<in> set es. wf_dict e \<Longrightarrow> \<forall>e \<in> set (normalize_chain H es). wf_dict e"
  unfolding normalize_chain_def by (rule normalize_loop_wf)

lemma normalize_chain_unchanged_again:
  "\<forall>e \<in> set es. wf_dict e \<Longrightarrow>
   \<not> changed (normalize_chain H es) (normalize_chain H (normalize_chain H es))"
  using changed_same[OF normalize_chain_wf, of es H] by (simp add: normalize_chain_idem)

lemma repair_main_unchanged:
  assumes "load_events lns = Inr es" and "es = [] \<or> \<not> changed es (normalize_chain H es)"
  shows "\<exists>r. repair_main H d lns = Inr r \<and> events_file r = lns \<and> \<not> reported_changed r"
  using assms by (cases "es = []") (simp_all add: repair_main_def Let_def)

lemma repair_main_changed:
  assumes "load_events lns = Inr es" and "es \<noteq> []" and "changed es (normalize_chain H es)"
  shows "\<exists>r. repair_main H False lns = Inr r \<and> events_file r = write_events (normalize_chain H es)"
  using assms by (simp add: repair_main_def Let_def)

lemma repair_main_twice:
  assumes wf: "\<forall>e. Some (JObj e) \<in> set lns \<longrightarrow> wf_dict e"
    and r1: "repair_main H False lns = Inr r1"
    and r2: "repair_main H dry (events_file r1) = Inr r2"
  shows "\<not> reported_changed r2 \<and> events_file r2 = events_file r1"
proof -
  from r1 obtain es where es: "load_events lns = Inr es"
    by (auto simp: repair_main_def split: sum.splits)
  then have lns: "lns = write_events es" by (rule load_events_Inr)
  with wf have wfes: "\<forall>e \<in> set es. wf_dict e" by (auto simp: write_events_def)
  show ?thesis
  proof (cases "es = [] \<or> \<not> changed es (normalize_chain H es)")
    case True
    from repair_main_unchanged[OF es True, where d=False] r1 have f1: "events_file r1 = lns" by auto
    from repair_main_unchanged[OF es True, where d=dry] r2 f1 show ?thesis by auto
  next
    case False
    with repair_main_changed[OF es, where H=H] r1
    have f1: "events_file r1 = write_events (normalize_chain H es)" by auto
    have ld: "load_events (events_file r1) = Inr (normalize_chain H es)"
      by (simp add: f1 load_events_write)
    have "\<not> changed (normalize_chain H es) (normalize_chain H (normalize_chain H es))"
      using wfes by (rule normalize_chain_unchanged_again)
    then have "normalize_chain H es = [] \<or>
               \<not> changed (normalize_chain H es) (normalize_chain H (normalize_chain H es))" by simp
    from repair_main_unchanged[OF ld this, where d=dry] r2 show ?thesis by auto
  qed
qed

lemma repair_main_total:
  assumes "load_events lns = Inr es"
  shows "\<exists>r. repair_main H d lns = Inr r \<and> (\<exists>es'. load_events (events_file r) = Inr es')"
  using assms by (auto simp: repair_main_def Let_def load_events_write)

text \<open>
  Claim C3.  Normalising a chain twice gives what normalising it once gives; the list
  keeps its length and every field other than \<open>seq\<close>, \<open>prev_hash\<close> and \<open>hash\<close>
  keeps its value in every record; on records that are Python dicts (no key twice) a
  repaired list compared with its own repair shows no change, and a repair run that
  follows a repair run reports no change and leaves the file as it found it.
\<close>

theorem repair_idempotent_preserving:
  "normalize_chain sha256 (normalize_chain sha256 events) = normalize_chain sha256 events \<and>
   length (normalize_chain sha256 events) = length events \<and>
   (\<forall>i < length events. \<forall>k. k \<notin> {''seq'', ''prev_hash'', ''hash''} \<longrightarrow>
      dict_get (normalize_chain sha256 events ! i) k = dict_get (events ! i) k) \<and>
   ((\<forall>e \<in> set events. wf_dict e) \<longrightarrow>
      \<not> changed (normalize_chain sha256 events)
          (normalize_chain sha256 (normalize_chain sha256 events))) \<and>
   ((\<forall>e. Some (JObj e) \<in> set lns \<longrightarrow> wf_dict e) \<longrightarrow>
      repair_main sha256 False lns = Inr r1 \<longrightarrow>
      repair_main sha256 dry_run (events_file r1) = Inr r2 \<longrightarrow>
      \<not> reported_changed r2 \<and> events_file r2 = events_file r1)"
proof (intro conjI)
  show "normalize_chain sha256 (normalize_chain sha256 events) = normalize_chain sha256 events"
    by (rule normalize_chain_idem)
  show "length (normalize_chain sha256 events) = length events"
    by (simp add: normalize_chain_def normalize_loop_length)
  show "\<forall>i < length events. \<forall>k. k \<notin> {''seq'', ''prev_hash'', ''hash''} \<longrightarrow>
      dict_get (normalize_chain sha256 events ! i) k = dict_get (events ! i) k"
    by (simp add: normalize_chain_def normalize_loop_other_fields)
  show "(\<forall>e \<in> set events. wf_dict e) \<longrightarrow>
      \<not> changed (normalize_chain sha256 events)
          (normalize_chain sha256 (normalize_chain sha256 events))"
    using normalize_chain_unchanged_again by blast
  show "(\<forall>e. Some (JObj e) \<in> set lns \<longrightarrow> wf_dict e) \<longrightarrow>
      repair_main sha256 False lns = Inr r1 \<longrightarrow>
      repair_main sha256 dry_run (events_file r1) = Inr r2 \<longrightarrow>
      \<not> reported_changed r2 \<and> events_file r2 = events_file r1"
    using repair_main_twice by blast
qed

theorem repair_idempotent_preserving_witness:
  "list_all wf_dict sample_events \<and> 1 < length sample_events \<and>
   ''summary'' \<notin> {''seq'', ''prev_hash'', ''hash''} \<and>
   dict_get (normalize_chain sample_digest sample_events ! 1) ''summary'' = Some (JStr ''b'') \<and>
   \<not> changed (normalize_chain sample_digest sample_events)
       (normalize_chain sample_digest (normalize_chain sample_digest sample_events)) \<and>
   (\<exists>r1 r2. repair_main sample_digest False (write_events sample_events) = Inr r1 \<and>
            repair_main sample_digest True (events_file r1) = Inr r2 \<and>
            \<not> reported_changed r2 \<and> events_file r2 = events_file r1)"
proof -
  have wf: "\<forall>e \<in> set sample_events. wf_dict e"
    by (simp add: sample_events_def wf_dict_def)
  then have wf': "\<forall>e. Some (JObj e) \<in> set (write_events sample_events) \<longrightarrow> wf_dict e"
    by (auto simp: write_events_def)
  have ld: "load_events (write_events sample_events) = Inr sample_events"
    by (rule load_events_write)
  from repair_main_total[OF ld] obtain r1 es' where
    r1: "repair_main sample_digest False (write_events sample_events) = Inr r1"
    and ld1: "load_events (events_file r1) = Inr es'" by blast
  from repair_main_total[OF ld1] obtain r2 where
    r2: "repair_main sample_digest True (events_file r1) = Inr r2" by blast
  have len: "1 < length sample_events" by (simp add: sample_events_def)
  have field: "dict_get (sample_events ! 1) ''summary'' = Some (JStr ''b'')"
    by (simp add: sample_events_def dict_get_def)
  show ?thesis
    using wf wf' r1 r2 len field
      repair_idempotent_preserving[of sample_digest sample_events "write_events sample_events" r1 True r2]
    by (auto simp: list_all_iff)
qed

section \<open>Properties of the branch graph\<close>

lemma read_refs_unwritten:
  assumes "dict_get (seen_branches env st) b = Some h" and "truthy h"
  shows "snd (read_refs env st) = st"
proof (cases "load_json (refs_json st) = []")
  case True
  then have "seen_branches env st = [(''main'', JNull)]"
    by (simp add: seen_branches_def read_refs_def Let_def branches_of_def dict_get_def dict_set_def
        get_str_def py_str_def strip_def lstrip_def rstrip_def is_space_def)
  with assms show ?thesis by (auto simp: dict_get_def split: if_splits)
next
  case False
  then show ?thesis by (simp add: read_refs_def Let_def)
qed

lemma branches_of_set_branches [simp]: "branches_of (dict_set refs ''branches'' (JObj b)) = b"
  by (simp add: branches_of_def dict_get_def dict_set_def update_conv')

lemma active_of_set_branches [simp]: "active_of (dict_set refs ''branches'' v) = active_of refs"
  by (simp add: active_of_def dict_get_def dict_set_def update_conv')

lemma ops_main_merge:
  assumes "ops_action args = ''merge''" and "ops_record_event args \<in> set record_event_choices"
    and "parse_meta json_loads (ops_meta_json args) = Inr meta"
  shows "ops_main sha256 json_loads env st0 args =
     record_step sha256 env args
       (action_merge sha256 env (snd (read_refs env st0))
          (dict_set (fst (read_refs env st0)) ''branches'' (JObj (seen_branches env st0))) meta args)"
  using assms
  by (simp add: ops_main_def action_choices_def seen_branches_def Let_def split: prod.splits)


lemma record_step_Go:
  "run_exit (record_step sha256 env args (Go n s p shown st)) = Returned"
  "run_printed (record_step sha256 env args (Go n s p shown st)) = Payload shown"
  "commits (run_store (record_step sha256 env args (Go n s p shown st))) = commits st"
  "refs_json (run_store (record_step sha256 env args (Go n s p shown st))) = refs_json st"
  by (simp_all add: record_step_def Let_def)

lemma stored_branches_record_step:
  "stored_branches (run_store (record_step sha256 env args (Go n s p shown st))) = stored_branches st"
  by (simp add: stored_branches_def record_step_Go)

lemma write_refs_store:
  "commits (snd (write_refs env st refs)) = commits st"
  "refs_json (snd (write_refs env st refs)) = Some (JObj (fst (write_refs env st refs)))"
  by (simp_all add: write_refs_def Let_def)

lemma branches_of_write_refs:
  "branches_of (fst (write_refs env st refs)) = branches_of refs"
  by (simp add: write_refs_def Let_def branches_of_def dict_get_def dict_set_def update_conv')

lemma stored_branches_write_refs:
  "stored_branches (snd (write_refs env st refs)) = branches_of refs"
  by (simp add: stored_branches_def write_refs_store load_json_def branches_of_write_refs)

lemma create_commit_result:
  obtains cid path payload where
    "create_commit sha256 env st branch parents message meta files
       = ((cid, path), st\<lparr>commits := AList.update cid payload (commits st)\<rparr>)"
    and "dict_get payload ''parents'' = Some (JArr parents)"
    and "dict_get payload ''branch'' = Some (JStr branch)"
    and "dict_get payload ''meta'' = Some (JObj meta)"
    and "dict_get payload ''commit_id'' = Some (JStr cid)"
proof -
  define payload0 where "payload0 =
     [(''schema'', JStr CTX_SCHEMA),
      (''timestamp'', JStr (clock_commit env)),
      (''branch'', JStr branch),
      (''parents'', JArr parents),
      (''message'', JStr (if strip message \<noteq> [] then strip message else ''context commit'')),
      (''tracked_files'', JArr (map JStr files)),
      (''file_snapshots'', JObj (snapshot_files sha256 (memory_files st) files [])),
      (''meta'', JObj meta)]"
  define cid where "cid = ''ctx-'' @ compact_stamp (clock_commit env) @ ''-'' @ take 12 (sha256 (stable_json payload0))"
  define payload where "payload = dict_set payload0 ''commit_id'' (JStr cid)"
  define path where "path = env_mem_root env @ ''/context/commits/'' @ cid @ ''.json''"
  have "create_commit sha256 env st branch parents message meta files
       = ((cid, path), st\<lparr>commits := AList.update cid payload (commits st)\<rparr>)"
    unfolding create_commit_def Let_def payload_def path_def cid_def payload0_def by (rule refl)
  moreover have "dict_get payload ''parents'' = Some (JArr parents)"
    "dict_get payload ''branch'' = Some (JStr branch)"
    "dict_get payload ''meta'' = Some (JObj meta)"
    "dict_get payload ''commit_id'' = Some (JStr cid)"
    by (simp_all add: payload_def payload0_def dict_get_def dict_set_def update_conv')
  ultimately show thesis using that by blast
qed

lemma action_merge_commit:
  assumes src: "source = strip (ops_source args)"
    and tgt: "target = (if strip (ops_target args) \<noteq> [] then strip (ops_target args) else active_of refs)"
    and "source \<noteq> []"
    and "dict_get (branches_of refs) source = Some source_head"
    and "truthy source_head"
    and "dict_get (branches_of refs) target = Some target_head"
    and "\<not> py_eq source_head target_head"
  obtains n summ ep shown st' cid payload where
    "action_merge sha256 env st refs meta args = Go n summ ep shown st'"
    and "map_of (commits st') cid = Some payload"
    and "dict_get payload ''parents'' = Some (JArr (filter truthy [target_head, source_head]))"
    and "dict_get payload ''branch'' = Some (JStr target)"
    and "dict_get payload ''commit_id'' = Some (JStr cid)"
    and "dict_get (stored_branches st') target = Some (JStr cid)"
    and "dict_get shown ''merge_commit'' = Some (JStr cid)"
proof -
  define message where "message = (if strip (ops_message args) \<noteq> [] then strip (ops_message args)
                               else ''merge '' @ source @ '' into '' @ target)"
  define meta' where "meta' = foldl (\<lambda>d (k, v). dict_set d k v)
                            [(''source_branch'', JStr source), (''target_branch'', JStr target)] meta"
  obtain cid path payload where
    cc: "create_commit sha256 env st target (filter truthy [target_head, source_head]) message meta'
           DEFAULT_TRACKED_FILES
       = ((cid, path), st\<lparr>commits := AList.update cid payload (commits st)\<rparr>)"
    and pl: "dict_get payload ''parents'' = Some (JArr (filter truthy [target_head, source_head]))"
      "dict_get payload ''branch'' = Some (JStr target)"
      "dict_get payload ''commit_id'' = Some (JStr cid)"
    by (rule create_commit_result) blast
  define st1 where "st1 = st\<lparr>commits := AList.update cid payload (commits st)\<rparr>"
  define refs1 where "refs1 = dict_set (dict_set refs ''branches''
        (JObj (dict_set (branches_of refs) target (JStr cid)))) ''active_branch'' (JStr target)"
  define st' where "st' = snd (write_refs env st1 refs1)"
  have b1: "branches_of refs1 = dict_set (branches_of refs) target (JStr cid)"
    by (simp add: refs1_def branches_of_def dict_get_def dict_set_def update_conv')
  have am: "\<exists>summ ep shown. action_merge sha256 env st refs meta args = Go True summ ep shown st'
              \<and> dict_get shown ''merge_commit'' = Some (JStr cid)"
    unfolding action_merge_def Let_def src[symmetric] tgt[symmetric]
    using assms(3-) cc
    by (simp add: get_or_none_def message_def[symmetric] meta'_def[symmetric] st1_def[symmetric]
        refs1_def[symmetric] st'_def split: prod.splits)
       (simp add: dict_get_def)
  have c: "map_of (commits st') cid = Some payload"
    by (simp add: st'_def write_refs_store st1_def update_conv')
  have h: "dict_get (stored_branches st') target = Some (JStr cid)"
    by (simp add: st'_def stored_branches_write_refs b1 dict_get_def dict_set_def update_conv')
  from am c h pl show thesis using that by blast
qed








text \<open>
  Claim C5, as the code has it.  A merge of a known source branch with a head into a
  known target branch whose head differs creates a commit on the target branch, which
  becomes the head of the target; its parents are the target head followed by the source
  head when the target has a head, and the source head alone when it has none.
\<close>

theorem merge_commit_parents:
  assumes "ops_action args = ''merge''" and "ops_record_event args \<in> set record_event_choices"
    and "parse_meta json_loads (ops_meta_json args) = Inr meta"
    and "strip (ops_source args) \<noteq> []"
    and "dict_get (seen_branches env st) (strip (ops_source args)) = Some source_head"
    and "truthy source_head"
    and "dict_get (seen_branches env st) (merge_target env st args) = Some target_head"
    and "\<not> py_eq source_head target_head"
  shows "\<exists>cid payload.
           run_exit (ops_main sha256 json_loads env st args) = Returned \<and>
           map_of (commits (run_store (ops_main sha256 json_loads env st args))) cid = Some payload \<and>
           dict_get payload ''commit_id'' = Some (JStr cid) \<and>
           dict_get payload ''branch'' = Some (JStr (merge_target env st args)) \<and>
           dict_get payload ''parents'' =
             Some (JArr (if truthy target_head then [target_head, source_head] else [source_head])) \<and>
           dict_get (stored_branches (run_store (ops_main sha256 json_loads env st args)))
             (merge_target env st args) = Some (JStr cid)"
proof -
  have unwritten: "snd (read_refs env st) = st"
    using assms(5,6) by (rule read_refs_unwritten)
  define refs where "refs = dict_set (fst (read_refs env st)) ''branches'' (JObj (seen_branches env st))"
  have b: "branches_of refs = seen_branches env st" by (simp add: refs_def)
  have a: "active_of refs = seen_active env st" by (simp add: refs_def seen_active_def)
  have tgt: "merge_target env st args =
      (if strip (ops_target args) \<noteq> [] then strip (ops_target args) else active_of refs)"
    by (simp add: merge_target_def a)
  have main: "ops_main sha256 json_loads env st args =
      record_step sha256 env args (action_merge sha256 env st refs meta args)"
    by (simp add: ops_main_merge[OF assms(1-3)] unwritten refs_def)
  have sh: "dict_get (branches_of refs) (strip (ops_source args)) = Some source_head"
    using assms(5) b by simp
  have th: "dict_get (branches_of refs) (merge_target env st args) = Some target_head"
    using assms(7) b by simp
  obtain n summ ep shown st' cid payload where
    am: "action_merge sha256 env st refs meta args = Go n summ ep shown st'"
    and c: "map_of (commits st') cid = Some payload"
    and p: "dict_get payload ''parents'' = Some (JArr (filter truthy [target_head, source_head]))"
    and br: "dict_get payload ''branch'' = Some (JStr (merge_target env st args))"
    and ci: "dict_get payload ''commit_id'' = Some (JStr cid)"
    and hd: "dict_get (stored_branches st') (merge_target env st args) = Some (JStr cid)"
    by (rule action_merge_commit[OF refl tgt assms(4) sh assms(6) th assms(8)]) blast
  have p': "dict_get payload ''parents'' =
             Some (JArr (if truthy target_head then [target_head, source_head] else [source_head]))"
    using p assms(6) by simp
  show ?thesis
    unfolding main am
    using c p' br ci hd by (auto simp: record_step_Go stored_branches_record_step)
qed

theorem merge_commit_parents_witness:
  "dict_get (seen_branches sample_env
       (sample_store (Some (sample_refs [(''main'', JStr ''ctx-0''), (''b1'', JStr ''ctx-1'')])))) ''b1''
     = Some (JStr ''ctx-1'') \<and>
   dict_get (seen_branches sample_env
       (sample_store (Some (sample_refs [(''main'', JStr ''ctx-0''), (''b1'', JStr ''ctx-1'')])))) ''main''
     = Some (JStr ''ctx-0'') \<and>
   \<not> py_eq (JStr ''ctx-1'') (JStr ''ctx-0'') \<and>
   (\<exists>cid payload.
      map_of (commits (run_store (ops_main sample_digest (\<lambda>t. None) sample_env
        (sample_store (Some (sample_refs [(''main'', JStr ''ctx-0''), (''b1'', JStr ''ctx-1'')])))
        ((sample_ops ''merge'')\<lparr>ops_source := ''b1'', ops_target := ''main''\<rparr>)))) cid = Some payload \<and>
      dict_get payload ''parents'' = Some (JArr [JStr ''ctx-0'', JStr ''ctx-1'']))"
proof -
  define st where "st = sample_store (Some (sample_refs [(''main'', JStr ''ctx-0''), (''b1'', JStr ''ctx-1'')]))"
  define args where "args = (sample_ops ''merge'')\<lparr>ops_source := ''b1'', ops_target := ''main''\<rparr>"
  have sb: "seen_branches sample_env st = [(''main'', JStr ''ctx-0''), (''b1'', JStr ''ctx-1'')]"
    unfolding st_def by code_simp
  have s: "strip (ops_source args) = ''b1''" unfolding args_def by code_simp
  have t: "merge_target sample_env st args = ''main''" unfolding args_def st_def by code_simp
  have h1: "ops_action args = ''merge''" by (simp add: args_def sample_ops_def)
  have h2: "ops_record_event args \<in> set record_event_choices"
    by (simp add: args_def sample_ops_def record_event_choices_def)
  have h3: "parse_meta (\<lambda>t. None) (ops_meta_json args) = Inr []"
    by (simp add: args_def sample_ops_def parse_meta_def strip_def lstrip_def rstrip_def)
  have h4: "strip (ops_source args) \<noteq> []" by (simp add: s)
  have h5: "dict_get (seen_branches sample_env st) (strip (ops_source args)) = Some (JStr ''ctx-1'')"
    by (simp add: s sb dict_get_def)
  have h6: "truthy (JStr ''ctx-1'')" by simp
  have h7: "dict_get (seen_branches sample_env st) (merge_target sample_env st args) = Some (JStr ''ctx-0'')"
    by (simp add: t sb dict_get_def)
  have h8: "\<not> py_eq (JStr ''ctx-1'') (JStr ''ctx-0'')" by simp
  from merge_commit_parents[OF h1 h2 h3 h4 h5 h6 h7 h8, of sample_digest]
  show ?thesis
    unfolding st_def[symmetric] args_def[symmetric]
    using sb h8 by (auto simp: dict_get_def)
qed

text \<open>
  As stated the claim fails for a target without a head: merging \<open>b1\<close> (head
  \<open>ctx-1\<close>) into the headless \<open>main\<close> creates a commit with the single parent
  \<open>ctx-1\<close>.
\<close>

theorem merge_commit_parents_counterexample:
  "dict_get (seen_branches sample_env
       (sample_store (Some (sample_refs [(''main'', JNull), (''b1'', JStr ''ctx-1'')])))) ''b1''
     = Some (JStr ''ctx-1'') \<and>
   dict_get (seen_branches sample_env
       (sample_store (Some (sample_refs [(''main'', JNull), (''b1'', JStr ''ctx-1'')])))) ''main''
     = Some JNull \<and>
   map (\<lambda>(cid, payload). dict_get payload ''parents'')
     (commits (run_store (ops_main sample_digest (\<lambda>t. None) sample_env
        (sample_store (Some (sample_refs [(''main'', JNull), (''b1'', JStr ''ctx-1'')])))
        ((sample_ops ''merge'')\<lparr>ops_source := ''b1'', ops_target := ''main''\<rparr>))))
     = [Some (JArr [JStr ''ctx-1''])]"
  by code_simp




end
